theory Spec2Isabelle
  imports Main "HOL-Library.List_Lexorder" "HOL-Library.Char_ord"
begin

section \<open>The admission handler of extensions/pkg/webhook/handler.go\<close>

text \<open>
  The handler resolves the kind of an admission request to a prototype object and a
  mutator, decodes the request into a copy of the prototype, filters it through the
  predicates, calls the mutator and shapes the response. Everything the Go code takes
  from outside the repository (the scheme and its decoder, \<open>meta.Accessor\<close>,
  \<open>equality.Semantic.DeepEqual\<close>, \<open>json.Marshal\<close>, the patch library) is a
  parameter of the model, so every theorem holds for whatever these libraries compute.
  Objects (\<open>runtime.Object\<close>) are values of a type variable \<open>'o\<close>; a deep copy of
  a value is the value. Logging is left out: it has no bearing on the response.
\<close>

subsection \<open>Data\<close>

type_synonym bytes = string

record GroupVersionKind =
  Group :: string
  Version :: string
  Kind :: string

definition APIVersionInternal :: string where
  "APIVersionInternal = ''__internal''"

text \<open>
  \<open>admission.Request\<close>: the fields that \<open>Handle\<close> and \<open>handle\<close> read, namely
  \<open>ar.Kind\<close>, \<open>req.Object.Raw\<close> and \<open>req.OldObject.Raw\<close>.
\<close>

record Request =
  ReqKind :: GroupVersionKind
  ObjectRaw :: bytes
  OldObjectRaw :: bytes

text \<open>
  The errors that the code builds. The payload is the kind or the message of the
  underlying error; the formatted request or object of the Go message is left out.
\<close>

datatype error =
    UnexpectedRequestKind GroupVersionKind
  | CouldNotDecodeRequest string
  | CouldNotGetAccessor string
  | CouldNotDecodeOldObject string
  | MutateError string
  | MarshalError string
  | CreatePatchError string
  | CouldNotGetGVK string
  | Reason string

text \<open>
  \<open>admission.Response\<close> in its three shapes: allowed without a patch, allowed with
  the patch operations, denied with a status code and an error.
\<close>

datatype 'p Response =
    Allow
  | AllowPatch 'p
  | Deny nat error

definition StatusBadRequest :: nat where
  "StatusBadRequest = 400"

definition StatusInternalServerError :: nat where
  "StatusInternalServerError = 500"

definition StatusForbidden :: nat where
  "StatusForbidden = 403"

text \<open>
  A \<open>Mutator\<close> value: the address that makes it a map key (two pointers to equal
  structs are two keys), the outcome of the type assertion \<open>m.(Validator)\<close> on it,
  and its \<open>Mutate\<close> method. The method gets the new object and the old one (absent
  when \<open>nil\<close>) and gives back its error, if any, together with the new object as it
  has left it: the Go method changes the object in place. A mutator is a value of this
  type: the \<open>nil\<close> interface value and values of a dynamic type that Go cannot
  compare, which no map can have as a key, are not in the model.
\<close>

datatype 'o Mutator =
  Mutator (addr: nat) (isValidator: bool)
          (Mutate: "'o \<Rightarrow> 'o option \<Rightarrow> string option \<times> 'o")

datatype 'o Validator =
  Validator (Validate: "'o \<Rightarrow> 'o option \<Rightarrow> string option \<times> 'o")

text \<open>
  The scheme, the type-resolution service outside the repository:
  \<open>apiutil.GVKForObject\<close> on it, and the universal decoder that
  \<open>serializer.NewCodecFactory\<close> derives from it.
\<close>

record 'o Scheme =
  GVKForObject :: "'o \<Rightarrow> string + GroupVersionKind"
  UniversalDecoder :: "bytes \<Rightarrow> 'o \<Rightarrow> string + 'o"

text \<open>
  The package-level library functions that \<open>handle\<close> calls: \<open>meta.Accessor\<close>
  (giving namespace and name), \<open>equality.Semantic.DeepEqual\<close>, \<open>json.Marshal\<close>
  and \<open>jsonpatch.CreatePatch\<close>, which \<open>admission.PatchResponseFromRaw\<close> calls.
  The patch library stays a parameter here; \<open>createPatch\<close> below is the patch
  document of the spec, one library that the parameter can be.
\<close>

record ('o, 'p) Libs =
  Accessor :: "'o \<Rightarrow> string + (string \<times> string)"
  DeepEqual :: "'o \<Rightarrow> 'o \<Rightarrow> bool"
  Marshal :: "'o \<Rightarrow> string + bytes"
  CreatePatch :: "bytes \<Rightarrow> bytes \<Rightarrow> string + 'p"

record 'o HandlerBuilder =
  b_mutatorMap :: "'o Mutator \<rightharpoonup> 'o list"
  b_predicates :: "('o \<Rightarrow> bool) list"
  b_scheme :: "'o Scheme"

text \<open>
  The handler that \<open>Build\<close> returns. The prototypes in its types map are objects,
  never \<open>nil\<close>: a lookup that finds nothing is \<open>None\<close>, as the \<open>nil\<close> test
  of lines 135 and 149 has it.
\<close>

record 'o handler =
  typesMap :: "GroupVersionKind \<rightharpoonup> 'o"
  mutatorMap :: "GroupVersionKind \<rightharpoonup> 'o Mutator"
  predicates :: "('o \<Rightarrow> bool) list"
  decoder :: "bytes \<Rightarrow> 'o \<Rightarrow> string + 'o"

text \<open>
  What a request makes the handler do, in order: each call of the decoder, of
  \<open>meta.Accessor\<close>, of \<open>EvalGeneric\<close> and of the mutator's \<open>Mutate\<close> is an
  event of the trace that \<open>handle\<close> returns beside its response.
\<close>

datatype 'o event =
    EvDecode bytes
  | EvAccessor 'o
  | EvEvalGeneric 'o
  | EvMutate nat 'o "'o option"

fun isMutate :: "'o event \<Rightarrow> bool" where
  "isMutate (EvMutate a x y) = True"
| "isMutate e = False"

fun isDecode :: "'o event \<Rightarrow> bool" where
  "isDecode (EvDecode raw) = True"
| "isDecode e = False"

fun isAllowPatch :: "'p Response \<Rightarrow> bool" where
  "isAllowPatch (AllowPatch p) = True"
| "isAllowPatch r = False"

subsection \<open>The response constructors of controller-runtime\<close>

definition Errored :: "nat \<Rightarrow> error \<Rightarrow> 'p Response" where
  "Errored code err = Deny code err"

definition ValidationResponse :: "bool \<Rightarrow> string \<Rightarrow> 'p Response" where
  "ValidationResponse allowed reason =
     (if allowed then Allow else Deny StatusForbidden (Reason reason))"

definition PatchResponseFromRaw :: "('o, 'p) Libs \<Rightarrow> bytes \<Rightarrow> bytes \<Rightarrow> 'p Response" where
  "PatchResponseFromRaw L original current =
     (case CreatePatch L original current of
        Inl err \<Rightarrow> Errored StatusInternalServerError (CreatePatchError err)
      | Inr patches \<Rightarrow> AllowPatch patches)"

subsection \<open>The predicates and the validator wrapper\<close>

text \<open>
  Modelled from the spec: \<open>extensionspredicate.EvalGeneric\<close> (package
  extensions/pkg/predicate) is not among the sources. The spec has a predicate as a
  pure function from the resource to a boolean and the chain as AND-combined,
  short-circuiting on the first false.
\<close>

fun EvalGeneric :: "'o \<Rightarrow> ('o \<Rightarrow> bool) list \<Rightarrow> bool" where
  "EvalGeneric obj [] = True"
| "EvalGeneric obj (p # ps) = (if \<not> p obj then False else EvalGeneric obj ps)"

text \<open>
  Modelled from the spec: \<open>hybridValidator\<close> is not among the sources. The spec has
  the adapter wrap a validator as a mutator whose \<open>mutate\<close> is the validator's
  \<open>validate\<close>, marked so that the dispatcher can tell it was a validator: the type
  assertion \<open>m.(Validator)\<close> holds of the wrapper. The wrapper is a new allocation;
  \<open>a\<close> is its address.
\<close>

definition hybridValidator :: "nat \<Rightarrow> 'o Validator \<Rightarrow> 'o Mutator" where
  "hybridValidator a val = Mutator a True (Validate val)"

subsection \<open>The builder\<close>

definition NewBuilder :: "'o Scheme \<Rightarrow> 'o HandlerBuilder" where
  "NewBuilder sch = \<lparr>b_mutatorMap = Map.empty, b_predicates = [], b_scheme = sch\<rparr>"

text \<open>Reading a key that a Go map lacks gives the nil slice, to which the types are appended.\<close>

definition WithMutator :: "'o HandlerBuilder \<Rightarrow> 'o Mutator \<Rightarrow> 'o list \<Rightarrow> 'o HandlerBuilder" where
  "WithMutator b mutator types =
     b\<lparr>b_mutatorMap := (b_mutatorMap b)(mutator \<mapsto>
          (case b_mutatorMap b mutator of None \<Rightarrow> [] | Some ts \<Rightarrow> ts) @ types)\<rparr>"

definition WithValidator ::
  "'o HandlerBuilder \<Rightarrow> nat \<Rightarrow> 'o Validator \<Rightarrow> 'o list \<Rightarrow> 'o HandlerBuilder" where
  "WithValidator b a validator types =
     (let mutator = hybridValidator a validator
      in b\<lparr>b_mutatorMap := (b_mutatorMap b)(mutator \<mapsto>
            (case b_mutatorMap b mutator of None \<Rightarrow> [] | Some ts \<Rightarrow> ts) @ types)\<rparr>)"

definition WithPredicates :: "'o HandlerBuilder \<Rightarrow> ('o \<Rightarrow> bool) list \<Rightarrow> 'o HandlerBuilder" where
  "WithPredicates b ps = b\<lparr>b_predicates := b_predicates b @ ps\<rparr>"

fun buildTypesMap_loop ::
  "'o Scheme \<Rightarrow> 'o list \<Rightarrow> (GroupVersionKind \<rightharpoonup> 'o) \<Rightarrow> error + (GroupVersionKind \<rightharpoonup> 'o)" where
  "buildTypesMap_loop sch [] tm = Inr tm"
| "buildTypesMap_loop sch (t # ts) tm =
     (case GVKForObject sch t of
        Inl err \<Rightarrow> Inl (CouldNotGetGVK err)
      | Inr gvk \<Rightarrow> buildTypesMap_loop sch ts (tm(gvk \<mapsto> t)))"

definition buildTypesMap ::
  "'o Scheme \<Rightarrow> 'o list \<Rightarrow> error + (GroupVersionKind \<rightharpoonup> 'o)" where
  "buildTypesMap sch types = buildTypesMap_loop sch types Map.empty"

text \<open>
  Go leaves the order in which \<open>range\<close> visits the keys of a map to the runtime. A
  loop over a map therefore takes the order as a list of keys; \<open>range_order ks m\<close>
  says that \<open>ks\<close> is such an order for \<open>m\<close>: every key of the map, once.
\<close>

definition range_order :: "'k list \<Rightarrow> ('k \<rightharpoonup> 'v) \<Rightarrow> bool" where
  "range_order ks m = (distinct ks \<and> set ks = dom m)"

text \<open>The inner loop of \<open>Build\<close>, lines 92 to 95, over the keys \<open>ks\<close> of \<open>tm\<close>.\<close>

fun Build_inner ::
  "'o Mutator \<Rightarrow> (GroupVersionKind \<rightharpoonup> 'o) \<Rightarrow> GroupVersionKind list \<Rightarrow> 'o handler \<Rightarrow> 'o handler" where
  "Build_inner mutator tm [] h = h"
| "Build_inner mutator tm (gvk # ks) h =
     (case tm gvk of
        None \<Rightarrow> Build_inner mutator tm ks h
      | Some obj \<Rightarrow>
          Build_inner mutator tm ks
            (h\<lparr>typesMap := (typesMap h)(gvk \<mapsto> obj),
               mutatorMap := (mutatorMap h)(gvk \<mapsto> mutator)\<rparr>))"

text \<open>
  The outer loop of \<open>Build\<close>, lines 86 to 96, over the keys \<open>ms\<close> of the builder's
  map; \<open>inner m\<close> is the order in which the inner loop of that round visits the types
  map built for \<open>m\<close>.
\<close>

fun Build_loop ::
  "'o HandlerBuilder \<Rightarrow> ('o Mutator \<Rightarrow> GroupVersionKind list) \<Rightarrow> 'o Mutator list \<Rightarrow>
   'o handler \<Rightarrow> error + 'o handler" where
  "Build_loop b inner [] h = Inr h"
| "Build_loop b inner (m # ms) h =
     (case b_mutatorMap b m of
        None \<Rightarrow> Build_loop b inner ms h
      | Some t \<Rightarrow>
          (case buildTypesMap (b_scheme b) t of
             Inl err \<Rightarrow> Inl err
           | Inr tm \<Rightarrow> Build_loop b inner ms (Build_inner m tm (inner m) h)))"

text \<open>
  \<open>Build\<close>, lines 77 to 100. The decoder, which the Go code stores after the loop,
  is in the handler from the start: the loop does not read it.
\<close>

definition Build ::
  "'o HandlerBuilder \<Rightarrow> 'o Mutator list \<Rightarrow> ('o Mutator \<Rightarrow> GroupVersionKind list) \<Rightarrow>
   error + 'o handler" where
  "Build b ms inner =
     Build_loop b inner ms
       \<lparr>typesMap = Map.empty, mutatorMap = Map.empty, predicates = b_predicates b,
        decoder = UniversalDecoder (b_scheme b)\<rparr>"

subsection \<open>Handling a request\<close>

text \<open>
  The decoding of the old object, lines 175 to 184: only when the request carries bytes
  for it; \<open>None\<close> is the \<open>nil\<close> old object of a request without them.
\<close>

definition decodeOld ::
  "(bytes \<Rightarrow> 'o \<Rightarrow> string + 'o) \<Rightarrow> Request \<Rightarrow> 'o \<Rightarrow> (string + 'o option) \<times> 'o event list" where
  "decodeOld dec req t =
     (if length (OldObjectRaw req) \<noteq> 0
      then (case dec (OldObjectRaw req) t of
              Inl err \<Rightarrow> (Inl err, [EvDecode (OldObjectRaw req)])
            | Inr oldObj \<Rightarrow> (Inr (Some oldObj), [EvDecode (OldObjectRaw req)]))
      else (Inr None, []))"

text \<open>The shaping of the response, lines 198 to 214.\<close>

definition shape :: "('o, 'p) Libs \<Rightarrow> 'o Mutator \<Rightarrow> 'o \<Rightarrow> 'o \<Rightarrow> 'p Response" where
  "shape L m obj newObj =
     (if \<not> isValidator m \<and> \<not> DeepEqual L obj newObj
      then (case Marshal L obj of
              Inl err \<Rightarrow> Errored StatusInternalServerError (MarshalError err)
            | Inr oldObjMarshaled \<Rightarrow>
                (case Marshal L newObj of
                   Inl err \<Rightarrow> Errored StatusInternalServerError (MarshalError err)
                 | Inr newObjMarshaled \<Rightarrow>
                     PatchResponseFromRaw L oldObjMarshaled newObjMarshaled))
      else ValidationResponse True [])"

definition handle ::
  "('o, 'p) Libs \<Rightarrow> Request \<Rightarrow> 'o Mutator \<Rightarrow> 'o \<Rightarrow> (bytes \<Rightarrow> 'o \<Rightarrow> string + 'o) \<Rightarrow>
   ('o \<Rightarrow> bool) list \<Rightarrow> 'p Response \<times> 'o event list" where
  "handle L req m t dec preds =
     (case dec (ObjectRaw req) t of
        Inl err \<Rightarrow>
          (Errored StatusBadRequest (CouldNotDecodeRequest err), [EvDecode (ObjectRaw req)])
      | Inr obj \<Rightarrow>
          (case Accessor L obj of
             Inl err \<Rightarrow>
               (Errored StatusBadRequest (CouldNotGetAccessor err),
                [EvDecode (ObjectRaw req), EvAccessor obj])
           | Inr accessor \<Rightarrow>
               (case decodeOld dec req t of
                  (Inl err, evs) \<Rightarrow>
                    (Errored StatusBadRequest (CouldNotDecodeOldObject err),
                     [EvDecode (ObjectRaw req), EvAccessor obj] @ evs)
                | (Inr oldObj, evs) \<Rightarrow>
                    (if \<not> EvalGeneric obj preds
                     then (ValidationResponse True [],
                           [EvDecode (ObjectRaw req), EvAccessor obj] @ evs @ [EvEvalGeneric obj])
                     else (case Mutate m obj oldObj of
                             (Some err, newObj) \<Rightarrow>
                               (Errored StatusBadRequest (MutateError err),
                                [EvDecode (ObjectRaw req), EvAccessor obj] @ evs @
                                [EvEvalGeneric obj, EvMutate (addr m) obj oldObj])
                           | (None, newObj) \<Rightarrow>
                               (shape L m obj newObj,
                                [EvDecode (ObjectRaw req), EvAccessor obj] @ evs @
                                [EvEvalGeneric obj, EvMutate (addr m) obj oldObj]))))))"

text \<open>
  The fallback loops of \<open>Handle\<close>, lines 129 to 134 and 143 to 148, over the keys
  \<open>ks\<close> of the map: the first key with the internal version and the group and kind
  of the request ends the loop.
\<close>

fun findInternal ::
  "GroupVersionKind \<Rightarrow> (GroupVersionKind \<rightharpoonup> 'v) \<Rightarrow> GroupVersionKind list \<Rightarrow> 'v option" where
  "findInternal k m [] = None"
| "findInternal k m (gvk # ks) =
     (case m gvk of
        None \<Rightarrow> findInternal k m ks
      | Some v \<Rightarrow>
          (if Version gvk = APIVersionInternal \<and> Group gvk = Group k \<and> Kind gvk = Kind k
           then Some v
           else findInternal k m ks))"

definition lookupKind ::
  "(GroupVersionKind \<rightharpoonup> 'v) \<Rightarrow> GroupVersionKind list \<Rightarrow> GroupVersionKind \<Rightarrow> 'v option" where
  "lookupKind m ks k = (case m k of Some v \<Rightarrow> Some v | None \<Rightarrow> findInternal k m ks)"

text \<open>
  \<open>Handle\<close>, lines 122 to 155; \<open>ksT\<close> and \<open>ksM\<close> are the orders in which the two
  fallback loops visit the types map and the mutator map.
\<close>

definition Handle ::
  "('o, 'p) Libs \<Rightarrow> 'o handler \<Rightarrow> GroupVersionKind list \<Rightarrow> GroupVersionKind list \<Rightarrow> Request \<Rightarrow>
   'p Response \<times> 'o event list" where
  "Handle L h ksT ksM req =
     (case lookupKind (typesMap h) ksT (ReqKind req) of
        None \<Rightarrow> (Errored StatusBadRequest (UnexpectedRequestKind (ReqKind req)), [])
      | Some t \<Rightarrow>
          (case lookupKind (mutatorMap h) ksM (ReqKind req) of
             None \<Rightarrow> (Errored StatusBadRequest (UnexpectedRequestKind (ReqKind req)), [])
           | Some mutator \<Rightarrow> handle L req mutator t (decoder h) (predicates h)))"

definition internalOf :: "GroupVersionKind \<Rightarrow> GroupVersionKind" where
  "internalOf k = \<lparr>Group = Group k, Version = APIVersionInternal, Kind = Kind k\<rparr>"

subsection \<open>The patch document\<close>

text \<open>
  Modelled from the spec: the patch library (\<open>jsonpatch.CreatePatch\<close>, which
  \<open>admission.PatchResponseFromRaw\<close> calls) and the application of a patch are not
  among the sources. The spec has a patch as a sequence of (operation, path, value)
  edits sufficient to transform the serialised form before the mutation into the one
  after it, computed from the two forms, with no edit when the two are equal.

  The two forms are read as JSON documents. An object is the list of its members in
  increasing order of their keys, so that two documents are equal exactly if they are
  the same JSON value; \<open>canonical\<close> says that a document is so represented.
\<close>

datatype json =
    JNull
  | JBool bool
  | JNumber int
  | JString string
  | JArray "json list"
  | JObject "(string \<times> json) list"

datatype operation = Add | Remove | Replace

type_synonym edit = "operation \<times> string list \<times> json option"


text \<open>Setting the member \<open>k\<close> of an object, new or not, and removing it.\<close>

fun putMember :: "string \<Rightarrow> json \<Rightarrow> (string \<times> json) list \<Rightarrow> (string \<times> json) list" where
  "putMember k v [] = [(k, v)]"
| "putMember k v ((k', v') # kvs) =
     (if k = k' then (k, v) # kvs
      else if k < k' then (k, v) # (k', v') # kvs
      else (k', v') # putMember k v kvs)"

definition dropMember :: "string \<Rightarrow> (string \<times> json) list \<Rightarrow> (string \<times> json) list" where
  "dropMember k kvs = filter (\<lambda>kv. fst kv \<noteq> k) kvs"

text \<open>An edit of the member \<open>k\<close>, as an edit of the object that has the member.\<close>

definition under :: "string \<Rightarrow> edit \<Rightarrow> edit" where
  "under k e = (fst e, k # fst (snd e), snd (snd e))"

text \<open>
  The edits from one document to another. Two objects are compared member by member:
  a key of the first only is removed, a key of the second only is added, and the
  values under a key of both are compared in turn. Any other two values that differ,
  arrays too, give one edit that replaces the first by the second.
\<close>

fun computePatch :: "json \<Rightarrow> json \<Rightarrow> edit list"
  and memberEdits :: "(string \<times> json) list \<Rightarrow> (string \<times> json) list \<Rightarrow> edit list" where
  "computePatch av bv =
     (case av of
        JObject a \<Rightarrow>
          (case bv of
             JObject b \<Rightarrow> memberEdits a b
           | _ \<Rightarrow> [(Replace, [], Some bv)])
      | _ \<Rightarrow> (if av = bv then [] else [(Replace, [], Some bv)]))"
| "memberEdits [] b = map (\<lambda>kv. (Add, [fst kv], Some (snd kv))) b"
| "memberEdits a [] = map (\<lambda>kv. (Remove, [fst kv], None)) a"
| "memberEdits ((k, av) # a) ((k', bv) # b) =
     (if k = k' then map (under k) (computePatch av bv) @ memberEdits a b
      else if k < k' then (Remove, [k], None) # memberEdits a ((k', bv) # b)
      else (Add, [k'], Some bv) # memberEdits ((k, av) # a) b)"

text \<open>
  Applying one edit: at the empty path to the document itself, at a key to the object
  that has or gets the member, at a longer path to the member under its first key. An
  edit that removes or replaces a member that is not there fails, and so does a path
  into something that is not an object.
\<close>

fun applyAt :: "operation \<Rightarrow> string list \<Rightarrow> json option \<Rightarrow> json \<Rightarrow> json option" where
  "applyAt opn [] val doc = (case opn of Remove \<Rightarrow> None | _ \<Rightarrow> val)"
| "applyAt opn [k] val (JObject kvs) =
     (case opn of
        Add \<Rightarrow> map_option (\<lambda>v. JObject (putMember k v kvs)) val
      | Replace \<Rightarrow>
          (if k \<in> fst ` set kvs then map_option (\<lambda>v. JObject (putMember k v kvs)) val
           else None)
      | Remove \<Rightarrow> (if k \<in> fst ` set kvs then Some (JObject (dropMember k kvs)) else None))"
| "applyAt opn (k # p) val (JObject kvs) =
     (case map_of kvs k of
        None \<Rightarrow> None
      | Some child \<Rightarrow>
          (case applyAt opn p val child of
             None \<Rightarrow> None
           | Some child' \<Rightarrow> Some (JObject (putMember k child' kvs))))"
| "applyAt opn p val doc = None"

fun applyPatch :: "edit list \<Rightarrow> json \<Rightarrow> json option" where
  "applyPatch [] doc = Some doc"
| "applyPatch (e # es) doc =
     (case applyAt (fst e) (fst (snd e)) (snd (snd e)) doc of
        None \<Rightarrow> None
      | Some doc' \<Rightarrow> applyPatch es doc')"

text \<open>
  The patch from the bytes of one form to the bytes of another: both are read as
  documents, by \<open>unmarshal\<close>, and bytes that are no document are an error.
\<close>

definition createPatch ::
  "(bytes \<Rightarrow> json option) \<Rightarrow> bytes \<Rightarrow> bytes \<Rightarrow> string + edit list" where
  "createPatch unmarshal a b =
     (case unmarshal a of
        None \<Rightarrow> Inl ''Invalid JSON Document''
      | Some x \<Rightarrow>
          (case unmarshal b of
             None \<Rightarrow> Inl ''Invalid JSON Document''
           | Some y \<Rightarrow> Inr (computePatch x y)))"

subsection \<open>A concrete instance\<close>

text \<open>
  One instance of the parameters, on which the theorems below are exercised: a widget
  with a label, an object without metadata, and an object that has no JSON form (what
  a mutator leaves behind when it stores an unsupported value). The wire form of a
  widget is the letter \<open>w\<close> and its label; a patch is the document that replaces
  the old one.
\<close>

datatype exobj = Widget string | NoMeta | NotJSON

definition exDecode :: "bytes \<Rightarrow> exobj \<Rightarrow> string + exobj" where
  "exDecode raw into =
     (case raw of
        [] \<Rightarrow> Inl ''unexpected end of JSON input''
      | c # cs \<Rightarrow>
          (if c = CHR ''w'' then Inr (Widget cs)
           else if c = CHR ''n'' then Inr NoMeta
           else Inl ''invalid character''))"

fun exAccessor :: "exobj \<Rightarrow> string + (string \<times> string)" where
  "exAccessor (Widget s) = Inr (''default'', s)"
| "exAccessor NoMeta = Inl ''object does not implement the Object interfaces''"
| "exAccessor NotJSON = Inr (''default'', [])"

fun exMarshal :: "exobj \<Rightarrow> string + bytes" where
  "exMarshal (Widget s) = Inr (CHR ''w'' # s)"
| "exMarshal NoMeta = Inr ''n''"
| "exMarshal NotJSON = Inl ''json: unsupported value''"

definition exCreatePatch :: "bytes \<Rightarrow> bytes \<Rightarrow> string + bytes" where
  "exCreatePatch original current = Inr current"

definition exApplyPatch :: "bytes \<Rightarrow> bytes \<Rightarrow> bytes option" where
  "exApplyPatch patch document = Some patch"

definition exEqual :: "exobj \<Rightarrow> exobj \<Rightarrow> bool" where
  "exEqual x y = (x = y)"

definition exLibs :: "(exobj, bytes) Libs" where
  "exLibs = \<lparr>Accessor = exAccessor, DeepEqual = exEqual, Marshal = exMarshal,
             CreatePatch = exCreatePatch\<rparr>"

definition exKind :: GroupVersionKind where
  "exKind = \<lparr>Group = ''apps'', Version = ''v1'', Kind = ''Widget''\<rparr>"

definition exOther :: GroupVersionKind where
  "exOther = \<lparr>Group = ''apps'', Version = ''v1'', Kind = ''Gadget''\<rparr>"

fun exGVKForObject :: "exobj \<Rightarrow> string + GroupVersionKind" where
  "exGVKForObject (Widget s) = Inr exKind"
| "exGVKForObject x = Inl ''no kind is registered''"

definition exScheme :: "exobj Scheme" where
  "exScheme = \<lparr>GVKForObject = exGVKForObject, UniversalDecoder = exDecode\<rparr>"

fun exRenameMutate :: "exobj \<Rightarrow> exobj option \<Rightarrow> string option \<times> exobj" where
  "exRenameMutate (Widget s) old = (None, Widget (s @ ''!''))"
| "exRenameMutate x old = (None, x)"

definition exRename :: "exobj Mutator" where
  "exRename = Mutator 1 False exRenameMutate"

definition exBreakMutate :: "exobj \<Rightarrow> exobj option \<Rightarrow> string option \<times> exobj" where
  "exBreakMutate x old = (None, NotJSON)"

definition exBreak :: "exobj Mutator" where
  "exBreak = Mutator 2 False exBreakMutate"

definition exTouch :: "exobj \<Rightarrow> exobj option \<Rightarrow> string option \<times> exobj" where
  "exTouch x old = (if x = Widget [] then Some ''empty label'' else None, Widget ''touched'')"

definition exChecker :: "exobj Validator" where
  "exChecker = Validator exTouch"

definition exNever :: "exobj \<Rightarrow> bool" where
  "exNever x = False"

definition exAlways :: "exobj \<Rightarrow> bool" where
  "exAlways x = True"

definition exCreate :: Request where
  "exCreate = \<lparr>ReqKind = exKind, ObjectRaw = ''wab'', OldObjectRaw = []\<rparr>"

definition exUpdate :: Request where
  "exUpdate = \<lparr>ReqKind = exKind, ObjectRaw = ''wab'', OldObjectRaw = ''wa''\<rparr>"

definition exBadNew :: Request where
  "exBadNew = \<lparr>ReqKind = exKind, ObjectRaw = ''{'', OldObjectRaw = []\<rparr>"

definition exBadOld :: Request where
  "exBadOld = \<lparr>ReqKind = exKind, ObjectRaw = ''wab'', OldObjectRaw = ''{''\<rparr>"

definition exNoMeta :: Request where
  "exNoMeta = \<lparr>ReqKind = exKind, ObjectRaw = ''n'', OldObjectRaw = ''{''\<rparr>"

definition exInner :: "exobj Mutator \<Rightarrow> GroupVersionKind list" where
  "exInner m = [exKind]"

definition exBuilder :: "exobj HandlerBuilder" where
  "exBuilder =
     WithMutator (WithMutator (NewBuilder exScheme) exRename [Widget ''first''])
       exBreak [Widget ''second'']"

definition exInternalHandler :: "exobj handler" where
  "exInternalHandler =
     \<lparr>typesMap = [internalOf exKind \<mapsto> Widget []],
      mutatorMap = [internalOf exKind \<mapsto> exRename],
      predicates = [exAlways], decoder = exDecode\<rparr>"

definition exBuilt :: "exobj handler" where
  "exBuilt =
     \<lparr>typesMap = [exKind \<mapsto> Widget ''first''], mutatorMap = [exKind \<mapsto> exRename],
      predicates = [], decoder = exDecode\<rparr>"

definition exGadget :: Request where
  "exGadget = \<lparr>ReqKind = exOther, ObjectRaw = ''wab'', OldObjectRaw = []\<rparr>"

text \<open>
  The same instance with the patches of \<open>createPatch\<close>: the wire form of a widget
  reads as an object with the label as its one member.
\<close>

definition exUnmarshal :: "bytes \<Rightarrow> json option" where
  "exUnmarshal raw =
     (case raw of
        [] \<Rightarrow> None
      | c # cs \<Rightarrow>
          (if c = CHR ''w'' then Some (JObject [(''label'', JString cs)])
           else if c = CHR ''n'' then Some (JObject [])
           else None))"

definition exJsonLibs :: "(exobj, edit list) Libs" where
  "exJsonLibs = \<lparr>Accessor = exAccessor, DeepEqual = exEqual, Marshal = exMarshal,
                 CreatePatch = createPatch exUnmarshal\<rparr>"

definition exBefore :: json where
  "exBefore =
     JObject
       [(''metadata'',
         JObject [(''labels'', JObject [(''a'', JString ''x'')]), (''name'', JString ''w'')]),
        (''size'', JNumber 1),
        (''tags'', JArray [JString ''p''])]"

definition exAfter :: json where
  "exAfter =
     JObject
       [(''kind'', JString ''Widget''),
        (''metadata'',
         JObject
           [(''labels'', JObject [(''a'', JString ''y''), (''b'', JString ''z'')]),
            (''name'', JString ''w'')]),
        (''size'', JNumber 2)]"

section \<open>Properties\<close>

subsection \<open>Auxiliary facts about \<open>handle\<close>\<close>

lemma handle_validator:
  "isValidator m \<Longrightarrow> \<not> isAllowPatch (fst (handle L req m t dec preds))"
  by (auto simp: handle_def shape_def Errored_def ValidationResponse_def
           split: sum.splits prod.splits option.splits)

lemma EvalGeneric_iff: "EvalGeneric obj ps \<longleftrightarrow> (\<forall>p\<in>set ps. p obj)"
  by (induction ps) auto

lemma handle_no_mutate_pred:
  "dec (ObjectRaw req) t = Inr obj \<Longrightarrow> \<not> EvalGeneric obj preds \<Longrightarrow>
   \<not> list_ex isMutate (snd (handle L req m t dec preds))"
  by (auto simp: handle_def decodeOld_def split: sum.splits prod.splits option.splits if_splits)

lemma handle_reaches_shape:
  assumes "dec (ObjectRaw req) t = Inr obj" "Accessor L obj = Inr acc"
    "fst (decodeOld dec req t) = Inr oldObj" "EvalGeneric obj preds"
    "Mutate m obj oldObj = (None, newObj)"
  shows "fst (handle L req m t dec preds) = shape L m obj newObj"
  using assms by (auto simp: handle_def split: sum.splits prod.splits)

lemma handle_not_unexpected:
  "fst (handle L req m t dec preds) \<noteq> Deny c (UnexpectedRequestKind k)"
  by (auto simp: handle_def shape_def Errored_def ValidationResponse_def PatchResponseFromRaw_def
           split: sum.splits prod.splits option.splits)

lemma shape_patch_iff:
  "isAllowPatch (shape L m obj newObj) \<longleftrightarrow>
     \<not> isValidator m \<and> \<not> DeepEqual L obj newObj \<and>
     (\<exists>a b p. Marshal L obj = Inr a \<and> Marshal L newObj = Inr b \<and> CreatePatch L a b = Inr p)"
  by (auto simp: shape_def Errored_def ValidationResponse_def PatchResponseFromRaw_def
           split: sum.splits)

lemma shape_allow_iff:
  "shape L m obj newObj = Allow \<longleftrightarrow> isValidator m \<or> DeepEqual L obj newObj"
  by (auto simp: shape_def Errored_def ValidationResponse_def PatchResponseFromRaw_def
           split: sum.splits)

lemma shape_deny_iff:
  "(\<exists>e. shape L m obj newObj = Deny 500 e) \<longleftrightarrow>
     \<not> isValidator m \<and> \<not> DeepEqual L obj newObj \<and>
     \<not> (\<exists>a b p. Marshal L obj = Inr a \<and> Marshal L newObj = Inr b \<and> CreatePatch L a b = Inr p)"
  by (auto simp: shape_def Errored_def ValidationResponse_def PatchResponseFromRaw_def
           StatusInternalServerError_def split: sum.splits)

lemma shape_value:
  "\<not> isValidator m \<Longrightarrow> \<not> DeepEqual L obj newObj \<Longrightarrow>
   shape L m obj newObj =
     (case Marshal L obj of
        Inl e \<Rightarrow> Deny 500 (MarshalError e)
      | Inr a \<Rightarrow>
          (case Marshal L newObj of
             Inl e \<Rightarrow> Deny 500 (MarshalError e)
           | Inr b \<Rightarrow>
               (case CreatePatch L a b of
                  Inl e \<Rightarrow> Deny 500 (CreatePatchError e)
                | Inr p \<Rightarrow> AllowPatch p)))"
  by (simp add: shape_def PatchResponseFromRaw_def Errored_def StatusInternalServerError_def
           split: sum.splits)

lemmas ex_handle_defs = handle_def decodeOld_def shape_def exDecode_def exLibs_def
  exJsonLibs_def exEqual_def
  exCreatePatch_def Errored_def ValidationResponse_def PatchResponseFromRaw_def
  StatusBadRequest_def StatusInternalServerError_def exAlways_def exNever_def

subsection \<open>The fallback lookup\<close>

text \<open>
  The keys of a map are distinct, so at most one key has the internal version and the
  group and kind of the request: whatever the order of the loop, it finds the entry
  under that key when the order holds the key, and nothing otherwise.
\<close>

lemma findInternal_eq:
  "findInternal k m ks = (if internalOf k \<in> set ks then m (internalOf k) else None)"
proof (induction ks)
  case Nil
  then show ?case by simp
next
  case (Cons gvk ks)
  have eq: "Version gvk = APIVersionInternal \<and> Group gvk = Group k \<and> Kind gvk = Kind k
            \<longleftrightarrow> gvk = internalOf k"
    by (auto simp: internalOf_def)
  show ?case
    using Cons.IH by (auto simp: eq split: option.splits)
qed

subsection \<open>Auxiliary facts about \<open>Build\<close>\<close>

lemma buildTypesMap_loop_append:
  "buildTypesMap_loop sch (xs @ ys) tm =
     (case buildTypesMap_loop sch xs tm of
        Inl e \<Rightarrow> Inl e
      | Inr tm1 \<Rightarrow> buildTypesMap_loop sch ys tm1)"
  by (induction xs arbitrary: tm) (auto split: sum.splits)

lemma buildTypesMap_loop_untouched:
  "buildTypesMap_loop sch ts tm = Inr tm' \<Longrightarrow> \<forall>t\<in>set ts. GVKForObject sch t \<noteq> Inr gvk \<Longrightarrow>
   tm' gvk = tm gvk"
  by (induction ts arbitrary: tm) (auto split: sum.splits)

lemma buildTypesMap_loop_ok:
  "\<forall>t\<in>set ts. \<exists>g. GVKForObject sch t = Inr g \<Longrightarrow> \<exists>tm'. buildTypesMap_loop sch ts tm = Inr tm'"
  by (induction ts arbitrary: tm) (auto split: sum.splits)

lemma buildTypesMap_loop_last:
  assumes "buildTypesMap_loop sch (ts1 @ t # ts2) tm = Inr tm'" "GVKForObject sch t = Inr gvk"
    "\<forall>t'\<in>set ts2. GVKForObject sch t' \<noteq> Inr gvk"
  shows "tm' gvk = Some t"
proof -
  from assms(1) obtain tm1 where "buildTypesMap_loop sch (t # ts2) tm1 = Inr tm'"
    by (auto simp: buildTypesMap_loop_append split: sum.splits)
  with assms(2) have "buildTypesMap_loop sch ts2 (tm1(gvk \<mapsto> t)) = Inr tm'" by simp
  from buildTypesMap_loop_untouched[OF this assms(3)] show ?thesis by simp
qed

lemma Build_inner_types:
  "typesMap (Build_inner m tm ks h) g =
     (if g \<in> set ks \<and> tm g \<noteq> None then tm g else typesMap h g)"
  by (induction ks arbitrary: h) (auto split: option.splits)

lemma Build_inner_mutator:
  "mutatorMap (Build_inner m tm ks h) g =
     (if g \<in> set ks \<and> tm g \<noteq> None then Some m else mutatorMap h g)"
  by (induction ks arbitrary: h) (auto split: option.splits)

lemma Build_inner_dom:
  "dom (mutatorMap h) = dom (typesMap h) \<Longrightarrow>
   dom (mutatorMap (Build_inner m tm ks h)) = dom (typesMap (Build_inner m tm ks h))"
  by (induction ks arbitrary: h) (auto split: option.splits)

lemma Build_loop_dom:
  "Build_loop b inner ms h = Inr h' \<Longrightarrow> dom (mutatorMap h) = dom (typesMap h) \<Longrightarrow>
   dom (mutatorMap h') = dom (typesMap h')"
proof (induction ms arbitrary: h)
  case Nil
  then show ?case by simp
next
  case (Cons m ms)
  show ?case
  proof (cases "b_mutatorMap b m")
    case None
    with Cons.prems(1) have "Build_loop b inner ms h = Inr h'" by simp
    then show ?thesis using Cons.prems(2) by (rule Cons.IH)
  next
    case (Some ts)
    with Cons.prems(1) obtain tm
      where rest: "Build_loop b inner ms (Build_inner m tm (inner m) h) = Inr h'"
      by (auto split: sum.splits)
    show ?thesis
      by (rule Cons.IH[OF rest]) (rule Build_inner_dom[OF Cons.prems(2)])
  qed
qed

lemma Build_loop_append:
  "Build_loop b inner (xs @ ys) h =
     (case Build_loop b inner xs h of Inl e \<Rightarrow> Inl e | Inr h1 \<Rightarrow> Build_loop b inner ys h1)"
  by (induction xs arbitrary: h) (auto split: sum.splits option.splits)

lemma Build_loop_ok:
  assumes "\<And>m ts t. b_mutatorMap b m = Some ts \<Longrightarrow> t \<in> set ts \<Longrightarrow>
             \<exists>g. GVKForObject (b_scheme b) t = Inr g"
  shows "\<exists>h'. Build_loop b inner ms h = Inr h'"
proof (induction ms arbitrary: h)
  case Nil
  then show ?case by simp
next
  case (Cons m ms)
  show ?case
  proof (cases "b_mutatorMap b m")
    case None
    then show ?thesis using Cons.IH by simp
  next
    case (Some ts)
    then have "\<forall>t\<in>set ts. \<exists>g. GVKForObject (b_scheme b) t = Inr g" using assms by blast
    from buildTypesMap_loop_ok[OF this] obtain tm where "buildTypesMap (b_scheme b) ts = Inr tm"
      unfolding buildTypesMap_def by blast
    then show ?thesis using Some Cons.IH by simp
  qed
qed

text \<open>Rounds for mutators none of whose types has the kind leave its entries alone.\<close>

lemma Build_loop_untouched:
  assumes "Build_loop b inner ms h = Inr h'"
    "\<And>m ts t. m \<in> set ms \<Longrightarrow> b_mutatorMap b m = Some ts \<Longrightarrow> t \<in> set ts \<Longrightarrow>
       GVKForObject (b_scheme b) t \<noteq> Inr gvk"
  shows "typesMap h' gvk = typesMap h gvk \<and> mutatorMap h' gvk = mutatorMap h gvk"
  using assms
proof (induction ms arbitrary: h)
  case Nil
  then show ?case by simp
next
  case (Cons m ms)
  have later: "GVKForObject (b_scheme b) t \<noteq> Inr gvk"
    if "m' \<in> set ms" "b_mutatorMap b m' = Some ts" "t \<in> set ts" for m' ts t
    using that Cons.prems(2)[of m' ts t] by simp
  show ?case
  proof (cases "b_mutatorMap b m")
    case None
    with Cons.prems(1) have rest: "Build_loop b inner ms h = Inr h'" by simp
    show ?thesis by (rule Cons.IH[OF rest]) (rule later)
  next
    case (Some ts)
    with Cons.prems(1) obtain tm where tm: "buildTypesMap (b_scheme b) ts = Inr tm"
      and rest: "Build_loop b inner ms (Build_inner m tm (inner m) h) = Inr h'"
      by (auto split: sum.splits)
    have "\<forall>t\<in>set ts. GVKForObject (b_scheme b) t \<noteq> Inr gvk"
      using Cons.prems(2)[OF _ Some] by simp
    from buildTypesMap_loop_untouched[OF tm[unfolded buildTypesMap_def] this]
    have "tm gvk = None" by simp
    then have "typesMap (Build_inner m tm (inner m) h) gvk = typesMap h gvk"
      "mutatorMap (Build_inner m tm (inner m) h) gvk = mutatorMap h gvk"
      by (simp_all add: Build_inner_types Build_inner_mutator)
    moreover have "typesMap h' gvk = typesMap (Build_inner m tm (inner m) h) gvk \<and>
      mutatorMap h' gvk = mutatorMap (Build_inner m tm (inner m) h) gvk"
      by (rule Cons.IH[OF rest]) (rule later)
    ultimately show ?thesis by simp
  qed
qed

lemma WithMutator_fields:
  "b_scheme (WithMutator b m types) = b_scheme b"
  "b_predicates (WithMutator b m types) = b_predicates b"
  "b_mutatorMap (WithMutator b m types) m =
     Some ((case b_mutatorMap b m of None \<Rightarrow> [] | Some ts \<Rightarrow> ts) @ types)"
  "m' \<noteq> m \<Longrightarrow> b_mutatorMap (WithMutator b m types) m' = b_mutatorMap b m'"
  by (simp_all add: WithMutator_def)

text \<open>Registering a validator is registering its wrapper as a mutator.\<close>

lemma WithValidator_WithMutator:
  "WithValidator b a validator types = WithMutator b (hybridValidator a validator) types"
  by (simp add: WithValidator_def WithMutator_def Let_def)

lemmas ex_build_defs = exBuilder_def WithMutator_def NewBuilder_def exRename_def exBreak_def
  exScheme_def exInner_def Build_def buildTypesMap_def exKind_def range_order_def exBuilt_def

lemma Build_exBuilder: "Build exBuilder [exBreak, exRename] exInner = Inr exBuilt"
  by (simp add: ex_build_defs)

lemma range_order_exBuilder: "range_order [exBreak, exRename] (b_mutatorMap exBuilder)"
  by (auto simp: ex_build_defs split: if_splits)

subsection \<open>Auxiliary facts about the patch document\<close>













text \<open>Equal documents give no edit.\<close>

lemma computePatch_same_both:
  "av = bv \<longrightarrow> computePatch av bv = []"
  "a = b \<longrightarrow> memberEdits a b = []"
  by (induction av bv and a b rule: computePatch_memberEdits.induct)
     (auto split: json.splits)

text \<open>The edits between two documents with every kind of change, and their effect.\<close>

lemma computePatch_example:
  "computePatch exBefore exAfter =
     [(Add, [''kind''], Some (JString ''Widget'')),
      (Replace, [''metadata'', ''labels'', ''a''], Some (JString ''y'')),
      (Add, [''metadata'', ''labels'', ''b''], Some (JString ''z'')),
      (Replace, [''size''], Some (JNumber 2)),
      (Remove, [''tags''], None)]"
  by (simp add: exBefore_def exAfter_def under_def)

lemma applyPatch_example:
  "applyPatch (computePatch exBefore exAfter) exBefore = Some exAfter"
  by (simp add: exBefore_def exAfter_def under_def dropMember_def)

section \<open>The claims\<close>

text \<open>
  C1. A handler registered through \<open>WithValidator\<close> never answers with a patch:
  \<open>WithValidator\<close> registers the wrapper \<open>hybridValidator a val\<close> as the mutator
  of the given types, and \<open>handle\<close> with that wrapper as its mutator never returns
  Allow-with-patch, whatever the request, the libraries and the validator are, and
  so also when the validator leaves its argument changed.
\<close>

theorem validator_never_patches:
  "b_mutatorMap (WithValidator b a val types) (hybridValidator a val) =
     Some ((case b_mutatorMap b (hybridValidator a val) of None \<Rightarrow> [] | Some ts \<Rightarrow> ts) @ types)
   \<and> \<not> isAllowPatch (fst (handle L req (hybridValidator a val) t dec preds))"
  by (simp add: handle_validator WithValidator_def hybridValidator_def Let_def)

theorem validator_never_patches_witness:
  "Validate exChecker (Widget ''ab'') None = (None, Widget ''touched'')
   \<and> b_mutatorMap (WithValidator (NewBuilder exScheme) 7 exChecker [Widget []])
       (hybridValidator 7 exChecker) = Some [Widget []]
   \<and> \<not> isAllowPatch (fst (handle exLibs exCreate (hybridValidator 7 exChecker) (Widget [])
         exDecode [exAlways]))
   \<and> fst (handle exLibs exCreate (hybridValidator 7 exChecker) (Widget []) exDecode [exAlways])
       = (Allow :: bytes Response)"
  using validator_never_patches
          [of "NewBuilder exScheme" 7 exChecker "[Widget []]" exLibs exCreate "Widget []" exDecode
              "[exAlways]"]
  by (simp add: ex_handle_defs exChecker_def exTouch_def exCreate_def hybridValidator_def
        NewBuilder_def)

text \<open>
  C2, as amended. When the new object decodes, its accessor is obtained, the old
  object decodes if the request has one, the predicates hold and \<open>Mutate\<close> returns
  no error, then the response is Allow-with-patch exactly if the mutator does not
  implement \<open>Validator\<close>, the mutated copy differs from the decoded object under
  \<open>DeepEqual\<close>, and both serialise and the patch library gives a patch. It is Allow
  without a patch exactly if the mutator implements \<open>Validator\<close> or the two are
  equal. It is Deny with status 500 exactly in the remaining case, a serialisation or
  a patch computation that fails. The last part gives the response of a mutator that
  does not implement \<open>Validator\<close> and changes the object: the error of the first
  step that fails, or the patch from the serialised decoded object to the serialised
  mutated copy.
\<close>

theorem response_shape:
  assumes "dec (ObjectRaw req) t = Inr obj"
    and "Accessor L obj = Inr acc"
    and "fst (decodeOld dec req t) = Inr oldObj"
    and "EvalGeneric obj preds"
    and "Mutate m obj oldObj = (None, newObj)"
  shows "(isAllowPatch (fst (handle L req m t dec preds)) \<longleftrightarrow>
            \<not> isValidator m \<and> \<not> DeepEqual L obj newObj \<and>
            (\<exists>a b p. Marshal L obj = Inr a \<and> Marshal L newObj = Inr b \<and>
                     CreatePatch L a b = Inr p))
       \<and> (fst (handle L req m t dec preds) = Allow \<longleftrightarrow>
            isValidator m \<or> DeepEqual L obj newObj)
       \<and> ((\<exists>e. fst (handle L req m t dec preds) = Deny 500 e) \<longleftrightarrow>
            \<not> isValidator m \<and> \<not> DeepEqual L obj newObj \<and>
            \<not> (\<exists>a b p. Marshal L obj = Inr a \<and> Marshal L newObj = Inr b \<and>
                       CreatePatch L a b = Inr p))
       \<and> (\<not> isValidator m \<and> \<not> DeepEqual L obj newObj \<longrightarrow>
            fst (handle L req m t dec preds) =
              (case Marshal L obj of
                 Inl e \<Rightarrow> Deny 500 (MarshalError e)
               | Inr a \<Rightarrow>
                   (case Marshal L newObj of
                      Inl e \<Rightarrow> Deny 500 (MarshalError e)
                    | Inr b \<Rightarrow>
                        (case CreatePatch L a b of
                           Inl e \<Rightarrow> Deny 500 (CreatePatchError e)
                         | Inr p \<Rightarrow> AllowPatch p))))"
  unfolding handle_reaches_shape[OF assms]
  using shape_patch_iff[of L m obj newObj] shape_allow_iff[of L m obj newObj]
    shape_deny_iff[of L m obj newObj] shape_value[of m L obj newObj]
  by blast

theorem response_shape_witness:
  "exDecode (ObjectRaw exUpdate) (Widget []) = Inr (Widget ''ab'')
   \<and> Accessor exLibs (Widget ''ab'') = Inr (''default'', ''ab'')
   \<and> fst (decodeOld exDecode exUpdate (Widget [])) = Inr (Some (Widget ''a''))
   \<and> EvalGeneric (Widget ''ab'') [exAlways]
   \<and> Mutate exRename (Widget ''ab'') (Some (Widget ''a'')) = (None, Widget ''ab!'')
   \<and> \<not> isValidator exRename
   \<and> \<not> DeepEqual exLibs (Widget ''ab'') (Widget ''ab!'')
   \<and> fst (handle exLibs exUpdate exRename (Widget []) exDecode [exAlways]) = AllowPatch ''wab!''"
proof -
  have 1: "exDecode (ObjectRaw exUpdate) (Widget []) = Inr (Widget ''ab'')"
    by (simp add: exDecode_def exUpdate_def)
  have 2: "Accessor exLibs (Widget ''ab'') = Inr (''default'', ''ab'')"
    by (simp add: exLibs_def)
  have 3: "fst (decodeOld exDecode exUpdate (Widget [])) = Inr (Some (Widget ''a''))"
    by (simp add: decodeOld_def exDecode_def exUpdate_def)
  have 4: "EvalGeneric (Widget ''ab'') [exAlways]"
    by (simp add: exAlways_def)
  have 5: "Mutate exRename (Widget ''ab'') (Some (Widget ''a'')) = (None, Widget ''ab!'')"
    by (simp add: exRename_def)
  have 6: "\<not> isValidator exRename" "\<not> DeepEqual exLibs (Widget ''ab'') (Widget ''ab!'')"
    by (simp_all add: exRename_def exLibs_def exEqual_def)
  have 7: "(case Marshal exLibs (Widget ''ab'') of
              Inl e \<Rightarrow> Deny 500 (MarshalError e)
            | Inr a \<Rightarrow>
                (case Marshal exLibs (Widget ''ab!'') of
                   Inl e \<Rightarrow> Deny 500 (MarshalError e)
                 | Inr b \<Rightarrow>
                     (case CreatePatch exLibs a b of
                        Inl e \<Rightarrow> Deny 500 (CreatePatchError e)
                      | Inr p \<Rightarrow> AllowPatch p))) = AllowPatch ''wab!''"
    by (simp add: exLibs_def exCreatePatch_def)
  show ?thesis
    using response_shape[OF 1 2 3 4 5] 1 2 3 4 5 6 7 by simp
qed

text \<open>
  Without the condition on the serialisation the statement fails: a mutator that
  does not implement \<open>Validator\<close> and leaves an object without a JSON form gets
  status 500 from lines 205 to 208, on a request for which every earlier step succeeds.
\<close>

theorem response_shape_counterexample:
  "exDecode (ObjectRaw exCreate) (Widget []) = Inr (Widget ''ab'')
   \<and> Accessor exLibs (Widget ''ab'') = Inr (''default'', ''ab'')
   \<and> fst (decodeOld exDecode exCreate (Widget [])) = Inr None
   \<and> EvalGeneric (Widget ''ab'') [exAlways]
   \<and> Mutate exBreak (Widget ''ab'') None = (None, NotJSON)
   \<and> \<not> isValidator exBreak
   \<and> \<not> DeepEqual exLibs (Widget ''ab'') NotJSON
   \<and> fst (handle exLibs exCreate exBreak (Widget []) exDecode [exAlways])
       = (Deny 500 (MarshalError ''json: unsupported value'') :: bytes Response)"
  by (simp add: ex_handle_defs exCreate_def exBreak_def exBreakMutate_def)




text \<open>
  C4, as amended. When the new object decodes, its accessor is obtained and the old
  object decodes if the request has one, then a predicate of the chain that is false
  of the decoded new object makes the response Allow without a patch, and \<open>Mutate\<close>
  is not called. (By \<open>handle_no_mutate_pred\<close> it is not called either when the
  accessor or the old object fails.)
\<close>

theorem predicate_false_allows:
  assumes "dec (ObjectRaw req) t = Inr obj"
    and "Accessor L obj = Inr acc"
    and "fst (decodeOld dec req t) = Inr oldObj"
    and "p \<in> set preds"
    and "\<not> p obj"
  shows "fst (handle L req m t dec preds) = Allow
       \<and> \<not> list_ex isMutate (snd (handle L req m t dec preds))"
proof -
  have ne: "\<not> EvalGeneric obj preds"
    using assms(4,5) by (auto simp: EvalGeneric_iff)
  have "fst (handle L req m t dec preds) = Allow"
    using assms(1,2,3) ne
    by (auto simp: handle_def ValidationResponse_def split: sum.splits prod.splits)
  moreover have "\<not> list_ex isMutate (snd (handle L req m t dec preds))"
    using assms(1) ne by (rule handle_no_mutate_pred)
  ultimately show ?thesis by simp
qed

theorem predicate_false_allows_witness:
  "exDecode (ObjectRaw exUpdate) (Widget []) = Inr (Widget ''ab'')
   \<and> Accessor exLibs (Widget ''ab'') = Inr (''default'', ''ab'')
   \<and> fst (decodeOld exDecode exUpdate (Widget [])) = Inr (Some (Widget ''a''))
   \<and> exNever \<in> set [exAlways, exNever]
   \<and> \<not> exNever (Widget ''ab'')
   \<and> fst (handle exLibs exUpdate exRename (Widget []) exDecode [exAlways, exNever])
       = (Allow :: bytes Response)
   \<and> \<not> list_ex isMutate
         (snd (handle exLibs exUpdate exRename (Widget []) exDecode [exAlways, exNever]
                 :: bytes Response \<times> exobj event list))"
proof -
  have 1: "exDecode (ObjectRaw exUpdate) (Widget []) = Inr (Widget ''ab'')"
    by (simp add: exDecode_def exUpdate_def)
  have 2: "Accessor exLibs (Widget ''ab'') = Inr (''default'', ''ab'')"
    by (simp add: exLibs_def)
  have 3: "fst (decodeOld exDecode exUpdate (Widget [])) = Inr (Some (Widget ''a''))"
    by (simp add: decodeOld_def exDecode_def exUpdate_def)
  have 4: "exNever \<in> set [exAlways, exNever]" by simp
  have 5: "\<not> exNever (Widget ''ab'')" by (simp add: exNever_def)
  show ?thesis
    using predicate_false_allows[OF 1 2 3 4 5, where m = exRename] 1 2 3 4 5 by blast
qed

text \<open>
  The new object decodes and the only predicate is false of it, yet the response is not
  Allow: the bytes of the old object are decoded before the predicates are evaluated,
  and here they are malformed.
\<close>

theorem predicate_false_allows_counterexample:
  "exDecode (ObjectRaw exBadOld) (Widget []) = Inr (Widget ''ab'')
   \<and> exNever \<in> set [exNever]
   \<and> \<not> exNever (Widget ''ab'')
   \<and> fst (handle exLibs exBadOld exRename (Widget []) exDecode [exNever])
       = (Deny 400 (CouldNotDecodeOldObject ''invalid character'') :: bytes Response)"
  by (simp add: ex_handle_defs exBadOld_def)

text \<open>
  C5. When neither registry has the kind of the request as a key and both have an entry
  under the internal version of its group and kind, each fallback loop finds that
  entry, in whatever order it visits the keys, and \<open>Handle\<close> is \<open>handle\<close> with the
  prototype and the mutator of that entry; its response is not the one for an unexpected
  kind.
\<close>

theorem internal_fallback:
  assumes "range_order ksT (typesMap h)"
    and "range_order ksM (mutatorMap h)"
    and "typesMap h (ReqKind req) = None"
    and "mutatorMap h (ReqKind req) = None"
    and "typesMap h (internalOf (ReqKind req)) = Some t"
    and "mutatorMap h (internalOf (ReqKind req)) = Some m"
  shows "lookupKind (typesMap h) ksT (ReqKind req) = Some t
       \<and> lookupKind (mutatorMap h) ksM (ReqKind req) = Some m
       \<and> Handle L h ksT ksM req = handle L req m t (decoder h) (predicates h)
       \<and> fst (Handle L h ksT ksM req) \<noteq> Deny 400 (UnexpectedRequestKind (ReqKind req))"
proof -
  have "internalOf (ReqKind req) \<in> set ksT" "internalOf (ReqKind req) \<in> set ksM"
    using assms by (auto simp: range_order_def)
  then have "lookupKind (typesMap h) ksT (ReqKind req) = Some t"
    "lookupKind (mutatorMap h) ksM (ReqKind req) = Some m"
    using assms(3-6) by (simp_all add: lookupKind_def findInternal_eq)
  then show ?thesis
    by (simp add: Handle_def handle_not_unexpected)
qed

theorem internal_fallback_witness:
  "range_order [internalOf exKind] (typesMap exInternalHandler)
   \<and> range_order [internalOf exKind] (mutatorMap exInternalHandler)
   \<and> typesMap exInternalHandler (ReqKind exCreate) = None
   \<and> mutatorMap exInternalHandler (ReqKind exCreate) = None
   \<and> typesMap exInternalHandler (internalOf (ReqKind exCreate)) = Some (Widget [])
   \<and> mutatorMap exInternalHandler (internalOf (ReqKind exCreate)) = Some exRename
   \<and> Handle exLibs exInternalHandler [internalOf exKind] [internalOf exKind] exCreate
       = handle exLibs exCreate exRename (Widget []) exDecode [exAlways]
   \<and> fst (Handle exLibs exInternalHandler [internalOf exKind] [internalOf exKind] exCreate)
       = AllowPatch ''wab!''"
proof -
  have 1: "range_order [internalOf exKind] (typesMap exInternalHandler)"
    and 2: "range_order [internalOf exKind] (mutatorMap exInternalHandler)"
    by (simp_all add: range_order_def exInternalHandler_def)
  have 3: "typesMap exInternalHandler (ReqKind exCreate) = None"
    and 4: "mutatorMap exInternalHandler (ReqKind exCreate) = None"
    by (simp_all add: exInternalHandler_def exCreate_def exKind_def internalOf_def
          APIVersionInternal_def)
  have 5: "typesMap exInternalHandler (internalOf (ReqKind exCreate)) = Some (Widget [])"
    and 6: "mutatorMap exInternalHandler (internalOf (ReqKind exCreate)) = Some exRename"
    by (simp_all add: exInternalHandler_def exCreate_def)
  have 7: "fst (handle exLibs exCreate exRename (Widget []) exDecode [exAlways])
             = AllowPatch ''wab!''"
    by (simp add: ex_handle_defs exCreate_def exRename_def)
  have 8: "decoder exInternalHandler = exDecode" "predicates exInternalHandler = [exAlways]"
    by (simp_all add: exInternalHandler_def)
  show ?thesis
    using internal_fallback[OF 1 2 3 4 5 6, of exLibs] 1 2 3 4 5 6 7 8 by simp
qed

text \<open>
  C6. When a registry has neither the kind of the request nor the internal version of
  its group and kind as a key, \<open>Handle\<close> answers Deny with status 400 and the error for
  an unexpected kind, and its trace is empty: no decoder call, no \<open>Mutate\<close>.
\<close>

theorem unknown_kind_denied:
  assumes "(typesMap h (ReqKind req) = None \<and> typesMap h (internalOf (ReqKind req)) = None)
         \<or> (mutatorMap h (ReqKind req) = None \<and> mutatorMap h (internalOf (ReqKind req)) = None)"
  shows "Handle L h ksT ksM req = (Deny 400 (UnexpectedRequestKind (ReqKind req)), [])"
  using assms
  by (auto simp: Handle_def lookupKind_def findInternal_eq Errored_def StatusBadRequest_def
           split: option.splits)

theorem unknown_kind_denied_witness:
  "typesMap exInternalHandler (ReqKind exGadget) = None
   \<and> typesMap exInternalHandler (internalOf (ReqKind exGadget)) = None
   \<and> mutatorMap exInternalHandler (ReqKind exGadget) = None
   \<and> mutatorMap exInternalHandler (internalOf (ReqKind exGadget)) = None
   \<and> Handle exLibs exInternalHandler [internalOf exKind] [internalOf exKind] exGadget
       = (Deny 400 (UnexpectedRequestKind exOther), [])"
proof -
  have 1: "typesMap exInternalHandler (ReqKind exGadget) = None
           \<and> typesMap exInternalHandler (internalOf (ReqKind exGadget)) = None"
    and 2: "mutatorMap exInternalHandler (ReqKind exGadget) = None
           \<and> mutatorMap exInternalHandler (internalOf (ReqKind exGadget)) = None"
    by (simp_all add: exInternalHandler_def exGadget_def exKind_def exOther_def internalOf_def
          APIVersionInternal_def)
  have 3: "ReqKind exGadget = exOther" by (simp add: exGadget_def)
  show ?thesis
    using unknown_kind_denied
            [of exInternalHandler exGadget exLibs "[internalOf exKind]" "[internalOf exKind]"]
      1 2 3
    by simp
qed

text \<open>
  C7. If the bytes of the new object fail to decode, the response is Deny with status
  400 and the decoding error, after the one decoder call. If the request has no bytes
  for the old object, the decoder is called for the new object only. If the new object
  decodes and the old one is present and fails to decode, the response is Deny with
  status 400: for the old object's decoding error, or for the accessor's error when the
  accessor fails first. \<open>Mutate\<close> is called in none of the failure cases.
\<close>

theorem decode_failures_denied:
  "(dec (ObjectRaw req) t = Inl err \<longrightarrow>
      handle L req m t dec preds =
        (Deny 400 (CouldNotDecodeRequest err), [EvDecode (ObjectRaw req)]))
   \<and> (OldObjectRaw req = [] \<longrightarrow>
        filter isDecode (snd (handle L req m t dec preds)) = [EvDecode (ObjectRaw req)])
   \<and> (dec (ObjectRaw req) t = Inr obj \<and> OldObjectRaw req \<noteq> [] \<and>
      dec (OldObjectRaw req) t = Inl err' \<longrightarrow>
        fst (handle L req m t dec preds) =
          (case Accessor L obj of
             Inl e \<Rightarrow> Deny 400 (CouldNotGetAccessor e)
           | Inr acc \<Rightarrow> Deny 400 (CouldNotDecodeOldObject err'))
        \<and> \<not> list_ex isMutate (snd (handle L req m t dec preds)))"
  by (auto simp: handle_def decodeOld_def Errored_def StatusBadRequest_def
           split: sum.splits prod.splits option.splits)

theorem decode_failures_denied_witness:
  "exDecode (ObjectRaw exBadNew) (Widget []) = Inl ''invalid character''
   \<and> handle exLibs exBadNew exRename (Widget []) exDecode [exAlways]
       = (Deny 400 (CouldNotDecodeRequest ''invalid character''), [EvDecode ''{''])
   \<and> OldObjectRaw exCreate = []
   \<and> filter isDecode (snd (handle exLibs exCreate exRename (Widget []) exDecode [exAlways]
                              :: bytes Response \<times> exobj event list))
       = [EvDecode ''wab'']
   \<and> exDecode (ObjectRaw exBadOld) (Widget []) = Inr (Widget ''ab'')
   \<and> OldObjectRaw exBadOld \<noteq> []
   \<and> exDecode (OldObjectRaw exBadOld) (Widget []) = Inl ''invalid character''
   \<and> fst (handle exLibs exBadOld exRename (Widget []) exDecode [exAlways])
       = (Deny 400 (CouldNotDecodeOldObject ''invalid character'') :: bytes Response)
   \<and> \<not> list_ex isMutate (snd (handle exLibs exBadOld exRename (Widget []) exDecode [exAlways]
                                 :: bytes Response \<times> exobj event list))"
proof -
  have 1: "exDecode (ObjectRaw exBadNew) (Widget []) = Inl ''invalid character''"
    by (simp add: exDecode_def exBadNew_def)
  have 2: "OldObjectRaw exCreate = []" "ObjectRaw exCreate = ''wab''"
    "ObjectRaw exBadNew = ''{''"
    by (simp_all add: exCreate_def exBadNew_def)
  have 3: "exDecode (ObjectRaw exBadOld) (Widget []) = Inr (Widget ''ab'')"
    "OldObjectRaw exBadOld \<noteq> []"
    "exDecode (OldObjectRaw exBadOld) (Widget []) = Inl ''invalid character''"
    "Accessor exLibs (Widget ''ab'') = Inr (''default'', ''ab'')"
    by (simp_all add: exDecode_def exBadOld_def exLibs_def)
  show ?thesis
    using decode_failures_denied
            [of exDecode exBadNew "Widget []" "''invalid character''" exLibs exRename
                "[exAlways]"]
      decode_failures_denied
            [of exDecode exCreate "Widget []" _ exLibs exRename "[exAlways]"]
      decode_failures_denied
            [of exDecode exBadOld "Widget []" _ exLibs exRename "[exAlways]" "Widget ''ab''"
                "''invalid character''"]
      1 2 3
    by simp
qed

text \<open>
  C8. After a \<open>Build\<close> that succeeds, every key of the handler's mutator map is a key
  of its types map, whatever the orders of the loops: each round of the inner loop
  writes both maps under the same key.
\<close>

theorem mutator_keys_have_types:
  assumes "Build b ms inner = Inr h"
  shows "dom (mutatorMap h) \<subseteq> dom (typesMap h)"
  using Build_loop_dom[OF assms[unfolded Build_def]] by simp

theorem mutator_keys_have_types_witness:
  "Build exBuilder [exBreak, exRename] exInner = Inr exBuilt
   \<and> dom (mutatorMap exBuilt) \<subseteq> dom (typesMap exBuilt)
   \<and> mutatorMap exBuilt exKind = Some exRename
   \<and> typesMap exBuilt exKind = Some (Widget ''first'')"
  using mutator_keys_have_types[OF Build_exBuilder] Build_exBuilder
  by (simp add: exBuilt_def)

text \<open>
  C9, as amended. A kind declared more than once does not make \<open>Build\<close> fail: it
  succeeds whenever the scheme resolves every declared type. The types that the calls
  of \<open>WithMutator\<close> declare for one mutator add up in the order of the calls, and the
  last of them of a kind is the prototype of that kind: it may come from the latest
  call or, when that call has no type of the kind, from an earlier one. Among the
  mutators that declare a kind, the one that the loop over the builder's map visits
  last wins, with its prototype; the order of that loop is the runtime's, not the order
  of registration.
\<close>

theorem last_visited_wins:
  assumes calls:
      "(case b_mutatorMap b m of None \<Rightarrow> [] | Some ts \<Rightarrow> ts) @ types = ts1 @ t # ts2"
    and resolves: "\<And>m' ts' t'. b_mutatorMap (WithMutator b m types) m' = Some ts' \<Longrightarrow>
       t' \<in> set ts' \<Longrightarrow> \<exists>g. GVKForObject (b_scheme b) t' = Inr g"
    and t: "GVKForObject (b_scheme b) t = Inr gvk"
    and t_last: "\<forall>t'\<in>set ts2. GVKForObject (b_scheme b) t' \<noteq> Inr gvk"
    and m_last: "\<And>m' ts' t'. m' \<in> set ms2 \<Longrightarrow>
       b_mutatorMap (WithMutator b m types) m' = Some ts' \<Longrightarrow>
       t' \<in> set ts' \<Longrightarrow> GVKForObject (b_scheme b) t' \<noteq> Inr gvk"
    and inner: "\<And>tm. buildTypesMap (b_scheme b) (ts1 @ t # ts2) = Inr tm \<Longrightarrow>
       range_order (inner m) tm"
  shows "\<exists>h. Build (WithMutator b m types) (ms1 @ m # ms2) inner = Inr h
           \<and> typesMap h gvk = Some t \<and> mutatorMap h gvk = Some m"
proof -
  let ?b = "WithMutator b m types"
  let ?h0 = "\<lparr>typesMap = Map.empty, mutatorMap = Map.empty, predicates = b_predicates ?b,
        decoder = UniversalDecoder (b_scheme ?b)\<rparr>"
  have sch: "b_scheme ?b = b_scheme b" by (rule WithMutator_fields)
  have m: "b_mutatorMap ?b m = Some (ts1 @ t # ts2)"
    using calls by (simp add: WithMutator_fields)
  have "\<exists>h. Build_loop ?b inner (ms1 @ m # ms2) ?h0 = Inr h"
  proof (rule Build_loop_ok)
    fix m' ts' t'
    assume "b_mutatorMap ?b m' = Some ts'" "t' \<in> set ts'"
    then show "\<exists>g. GVKForObject (b_scheme ?b) t' = Inr g"
      unfolding sch by (rule resolves)
  qed
  then obtain h where h: "Build_loop ?b inner (ms1 @ m # ms2) ?h0 = Inr h" by blast
  then obtain h1 where h2: "Build_loop ?b inner (m # ms2) h1 = Inr h"
    by (auto simp: Build_loop_append split: sum.splits)
  from h2 m obtain tm where tm: "buildTypesMap (b_scheme b) (ts1 @ t # ts2) = Inr tm"
    and rest: "Build_loop ?b inner ms2 (Build_inner m tm (inner m) h1) = Inr h"
    by (auto simp: sch split: sum.splits)
  have tmg: "tm gvk = Some t"
    using buildTypesMap_loop_last[OF tm[unfolded buildTypesMap_def] t t_last] .
  have "gvk \<in> set (inner m)"
    using inner[OF tm] tmg by (auto simp: range_order_def)
  then have "typesMap (Build_inner m tm (inner m) h1) gvk = Some t"
    "mutatorMap (Build_inner m tm (inner m) h1) gvk = Some m"
    using tmg by (simp_all add: Build_inner_types Build_inner_mutator)
  moreover have "typesMap h gvk = typesMap (Build_inner m tm (inner m) h1) gvk \<and>
      mutatorMap h gvk = mutatorMap (Build_inner m tm (inner m) h1) gvk"
  proof (rule Build_loop_untouched[OF rest])
    fix m' ts' t'
    assume "m' \<in> set ms2" "b_mutatorMap ?b m' = Some ts'" "t' \<in> set ts'"
    then show "GVKForObject (b_scheme ?b) t' \<noteq> Inr gvk"
      unfolding sch by (rule m_last)
  qed
  ultimately show ?thesis using h by (simp add: Build_def)
qed

text \<open>
  The builder of the example has \<open>exRename\<close> with \<open>Widget ''first''\<close> and
  \<open>exBreak\<close> with \<open>Widget ''second''\<close>; a third call declares \<open>Widget ''third''\<close>
  for \<open>exRename\<close> again. With \<open>exRename\<close> visited last, its later prototype wins.
\<close>

theorem last_visited_wins_witness:
  "b_mutatorMap exBuilder exRename = Some [Widget ''first'']
   \<and> b_mutatorMap (WithMutator exBuilder exRename [Widget ''third'']) exRename
       = Some [Widget ''first'', Widget ''third'']
   \<and> b_mutatorMap (WithMutator exBuilder exRename [Widget ''third'']) exBreak
       = Some [Widget ''second'']
   \<and> GVKForObject (b_scheme exBuilder) (Widget ''first'') = Inr exKind
   \<and> GVKForObject (b_scheme exBuilder) (Widget ''second'') = Inr exKind
   \<and> GVKForObject (b_scheme exBuilder) (Widget ''third'') = Inr exKind
   \<and> range_order [exBreak, exRename]
       (b_mutatorMap (WithMutator exBuilder exRename [Widget ''third'']))
   \<and> \<not> (\<exists>tm. buildTypesMap (b_scheme exBuilder) [Widget ''first'', Widget ''third''] = Inr tm \<and>
             \<not> range_order (exInner exRename) tm)
   \<and> (\<exists>h. Build (WithMutator exBuilder exRename [Widget ''third'']) [exBreak, exRename] exInner
             = Inr h
           \<and> typesMap h exKind = Some (Widget ''third'') \<and> mutatorMap h exKind = Some exRename)"
proof -
  let ?b = "WithMutator exBuilder exRename [Widget ''third'']"
  have 0: "b_mutatorMap exBuilder exRename = Some [Widget ''first'']"
    "b_mutatorMap ?b exRename = Some [Widget ''first'', Widget ''third'']"
    "b_mutatorMap ?b exBreak = Some [Widget ''second'']"
    by (simp_all add: ex_build_defs)
  have 1: "\<exists>g. GVKForObject (b_scheme exBuilder) t' = Inr g"
    if "b_mutatorMap ?b m' = Some ts'" "t' \<in> set ts'" for m' ts' t'
    using that by (auto simp: ex_build_defs split: if_splits)
  have 2: "(case b_mutatorMap exBuilder exRename of None \<Rightarrow> [] | Some ts \<Rightarrow> ts) @
             [Widget ''third''] = [Widget ''first''] @ Widget ''third'' # []"
    by (simp add: 0)
  have 3: "GVKForObject (b_scheme exBuilder) (Widget ''first'') = Inr exKind"
    "GVKForObject (b_scheme exBuilder) (Widget ''second'') = Inr exKind"
    "GVKForObject (b_scheme exBuilder) (Widget ''third'') = Inr exKind"
    by (simp_all add: exBuilder_def WithMutator_def NewBuilder_def exScheme_def)
  have 4: "\<forall>t'\<in>set []. GVKForObject (b_scheme exBuilder) t' \<noteq> Inr exKind" by simp
  have 5: "GVKForObject (b_scheme exBuilder) t' \<noteq> Inr exKind"
    if "m' \<in> set []" for m' :: "exobj Mutator" and t'
    using that by simp
  have 6: "range_order (exInner exRename) tm"
    if "buildTypesMap (b_scheme exBuilder) ([Widget ''first''] @ Widget ''third'' # []) = Inr tm"
    for tm
    using that by (auto simp: ex_build_defs split: if_splits)
  have 7: "range_order [exBreak, exRename] (b_mutatorMap ?b)"
    by (auto simp: ex_build_defs split: if_splits)
  have 8: "\<exists>h. Build ?b ([exBreak] @ exRename # []) exInner = Inr h
           \<and> typesMap h exKind = Some (Widget ''third'') \<and> mutatorMap h exKind = Some exRename"
  proof (rule last_visited_wins
                [of exBuilder exRename "[Widget ''third'']" "[Widget ''first'']"
                    "Widget ''third''" "[]" exKind "[]" exInner "[exBreak]"])
    show "(case b_mutatorMap exBuilder exRename of None \<Rightarrow> [] | Some ts \<Rightarrow> ts) @
            [Widget ''third''] = [Widget ''first''] @ Widget ''third'' # []"
      by (rule 2)
  next
    fix m' ts' t'
    assume "b_mutatorMap ?b m' = Some ts'" "t' \<in> set ts'"
    then show "\<exists>g. GVKForObject (b_scheme exBuilder) t' = Inr g" by (rule 1)
  next
    show "GVKForObject (b_scheme exBuilder) (Widget ''third'') = Inr exKind" by (rule 3)
  next
    show "\<forall>t'\<in>set []. GVKForObject (b_scheme exBuilder) t' \<noteq> Inr exKind" by (rule 4)
  next
    fix m' :: "exobj Mutator" and ts' t'
    assume "m' \<in> set []"
    then show "GVKForObject (b_scheme exBuilder) t' \<noteq> Inr exKind" by (rule 5)
  next
    fix tm
    assume "buildTypesMap (b_scheme exBuilder) ([Widget ''first''] @ Widget ''third'' # [])
              = Inr tm"
    then show "range_order (exInner exRename) tm" by (rule 6)
  qed
  show ?thesis
    using 0 3 6 7 8 by auto
qed

text \<open>
  The builder gets \<open>exRename\<close> with the prototype \<open>Widget ''first''\<close> and then
  \<open>exBreak\<close> with \<open>Widget ''second''\<close>, both of the kind \<open>exKind\<close>. When the
  loop over the builder's map visits \<open>exBreak\<close> before \<open>exRename\<close>, the handler maps
  the kind to the pair registered first.
\<close>

theorem last_visited_wins_counterexample:
  "exBuilder = WithMutator (WithMutator (NewBuilder exScheme) exRename [Widget ''first''])
                 exBreak [Widget ''second'']
   \<and> GVKForObject exScheme (Widget ''first'') = Inr exKind
   \<and> GVKForObject exScheme (Widget ''second'') = Inr exKind
   \<and> range_order [exBreak, exRename] (b_mutatorMap exBuilder)
   \<and> Build exBuilder [exBreak, exRename] exInner = Inr exBuilt
   \<and> mutatorMap exBuilt exKind = Some exRename
   \<and> typesMap exBuilt exKind = Some (Widget ''first'')
   \<and> exRename \<noteq> exBreak"
  using Build_exBuilder range_order_exBuilder
  by (simp add: exBuilt_def exBuilder_def exScheme_def exRename_def exBreak_def)

text \<open>
  C10. When the new object decodes and \<open>meta.Accessor\<close> fails on it, the response is
  Deny with status 400 and the accessor's error, and the trace ends with the accessor
  call: the old object is not decoded, the predicates are not evaluated and \<open>Mutate\<close>
  is not called.
\<close>

theorem accessor_failure_denied:
  assumes "dec (ObjectRaw req) t = Inr obj"
    and "Accessor L obj = Inl err"
  shows "handle L req m t dec preds =
           (Deny 400 (CouldNotGetAccessor err), [EvDecode (ObjectRaw req), EvAccessor obj])"
  using assms by (simp add: handle_def Errored_def StatusBadRequest_def)

theorem accessor_failure_denied_witness:
  "exDecode (ObjectRaw exNoMeta) (Widget []) = Inr NoMeta
   \<and> Accessor exLibs NoMeta = Inl ''object does not implement the Object interfaces''
   \<and> OldObjectRaw exNoMeta = ''{''
   \<and> handle exLibs exNoMeta exRename (Widget []) exDecode [exNever]
       = (Deny 400 (CouldNotGetAccessor ''object does not implement the Object interfaces''),
          [EvDecode ''n'', EvAccessor NoMeta])"
proof -
  have 1: "exDecode (ObjectRaw exNoMeta) (Widget []) = Inr NoMeta"
    by (simp add: exDecode_def exNoMeta_def)
  have 2: "Accessor exLibs NoMeta = Inl ''object does not implement the Object interfaces''"
    by (simp add: exLibs_def)
  have 3: "OldObjectRaw exNoMeta = ''{''" "ObjectRaw exNoMeta = ''n''"
    by (simp_all add: exNoMeta_def)
  show ?thesis
    using accessor_failure_denied
            [where dec = exDecode and req = exNoMeta and t = "Widget []" and obj = NoMeta
               and L = exLibs and m = exRename and preds = "[exNever]"
               and err = "''object does not implement the Object interfaces''"]
      1 2 3
    by simp
qed

end
